theory Spec2Isabelle
  imports Complex_Main "HOL-Library.Word" "HOL-Library.Sublist"
begin

section \<open>Strings\<close>

text \<open>
  Go strings are byte sequences; they are modelled as \<^typ>\<open>string\<close> (a list of 8-bit
  characters). The library functions of package \<open>strings\<close> that the program calls are
  written out on bytes. Case mapping and white space are modelled on the ASCII range:
  bytes outside it are left alone by \<open>ToLower\<close>/\<open>ToUpper\<close> and are never trimmed.
\<close>

definition upper_letters :: string where
  "upper_letters = ''ABCDEFGHIJKLMNOPQRSTUVWXYZ''"

definition lower_letters :: string where
  "lower_letters = ''abcdefghijklmnopqrstuvwxyz''"

definition to_lower_char :: "char \<Rightarrow> char" where
  "to_lower_char c = (case map_of (zip upper_letters lower_letters) c of Some d \<Rightarrow> d | None \<Rightarrow> c)"

definition to_upper_char :: "char \<Rightarrow> char" where
  "to_upper_char c = (case map_of (zip lower_letters upper_letters) c of Some d \<Rightarrow> d | None \<Rightarrow> c)"


definition ToUpper :: "string \<Rightarrow> string" where
  "ToUpper s = map to_upper_char s"


definition HasPrefix :: "string \<Rightarrow> string \<Rightarrow> bool" where
  "HasPrefix s p = prefix p s"

section \<open>Cost tracker (internal/security/cost\_tracker.go)\<close>




text \<open>
  A rendering for concrete evaluation: the decimal expansion of \<open>n / 10^9\<close> rounded to
  two places (half to even) in exact arithmetic.
\<close>

definition digit_char :: "nat \<Rightarrow> char" where
  "digit_char d = ''0123456789'' ! (d mod 10)"

fun dec_digits_fuel :: "nat \<Rightarrow> nat \<Rightarrow> string \<Rightarrow> string" where
  "dec_digits_fuel 0 n acc = acc"
| "dec_digits_fuel (Suc f) n acc =
     (if n < 10 then digit_char n # acc
      else dec_digits_fuel f (n div 10) (digit_char (n mod 10) # acc))"

definition dec_nat :: "nat \<Rightarrow> string" where
  "dec_nat n = dec_digits_fuel (Suc n) n []"



section \<open>Intent router (internal/service/router.go)\<close>







section \<open>Agent loop (internal/agent/cortex\_agent.go)\<close>

text \<open>
  Dynamic JSON values (\<open>interface{}\<close>): the program only ever asks whether a value is a
  string; any other value is carried as its text.
\<close>

datatype jval = JNull | JString string | JOther string

type_synonym jobject = "(string \<times> jval) list"

record ToolCall =
  ID :: string
  Name :: string
  Input :: jobject

text \<open>
  \<open>tools.Tool\<close>. \<open>Execute\<close> returns \<open>(string, error)\<close>: \<open>Inl\<close> is the error's text.
  The context argument only carries cancellation, which shows as an error result.
\<close>

record Tool =
  tName :: string
  tDescription :: string
  tInputSchema :: jobject
  tExecute :: "jobject \<Rightarrow> string + string"

record ToolParam =
  pName :: string
  pDescription :: string
  pInputSchema :: jobject

text \<open>
  Blocks of an LLM response. The raw \<open>Input\<close> of a tool-use block is represented by
  the outcome of \<open>json.Unmarshal\<close> on it: \<open>None\<close> when it does not parse.
\<close>

datatype ContentBlock =
    TextBlock string
  | ToolUseBlock string string "jobject option"
  | OtherBlock

record Response =
  Content :: "ContentBlock list"
  StopReason :: string

datatype ParamBlock =
    PText string
  | PToolResult string string bool

datatype MessageParam =
    UserMessage "ParamBlock list"
  | AssistantMessage "ContentBlock list"

text \<open>\<open>anthropic.MessageNewParams\<close>; an unset field is \<open>None\<close>.\<close>

record MessageNewParams =
  Model :: string
  MaxTokens :: nat
  Messages :: "MessageParam list"
  Tools :: "ToolParam list option"
  System :: "string option"

record CortexAgent =
  model :: string
  maxTokens :: nat

definition NewCortexAgent :: "string \<Rightarrow> CortexAgent" where
  "NewCortexAgent m =
     \<lparr>model = (if m = '''' then ''claude-sonnet-4-6'' else m), maxTokens = 4096\<rparr>"

text \<open>
  The LLM is outside the program: \<open>llm n params\<close> is the answer to the \<open>n\<close>-th call of a
  run (counted from 0) when it is sent \<open>params\<close>; \<open>Inl\<close> is a failed call.
\<close>

type_synonym LLM = "nat \<Rightarrow> MessageNewParams \<Rightarrow> string + Response"

datatype RunError =
    LLMCallFailed string
  | FinalAnswerCallFailed string
  | ExceededMaxIterations nat

text \<open>
  What \<open>Run\<close> returns, \<open>(finalText, toolsUsed, lastExecutedSQL, error)\<close>, together
  with the trace of the run: the LLM calls it issued and the tool calls it executed, in
  order.
\<close>

record RunResult =
  finalText :: string
  rToolsUsed :: "string list"
  rLastExecutedSQL :: string
  rError :: "RunError option"
  rCalls :: "MessageNewParams list"
  rExecuted :: "ToolCall list"

record LoopState =
  messages :: "MessageParam list"
  toolsUsed :: "string list"
  lastExecutedSQL :: string
  calls :: "MessageNewParams list"
  executed :: "ToolCall list"

definition maxIter :: nat where
  "maxIter = 10"

definition forcingText :: string where
  "forcingText =
     ''You have enough data. Please provide your final answer now without calling any more tools.''"

definition toolParam :: "Tool \<Rightarrow> ToolParam" where
  "toolParam t =
     \<lparr>pName = tName t, pDescription = tDescription t,
      pInputSchema =
        [(''type'', JString ''object''),
         (''properties'',
            (case map_of (tInputSchema t) ''properties'' of Some props \<Rightarrow> props | None \<Rightarrow> JNull))]
        @ (case map_of (tInputSchema t) ''required'' of
             Some required \<Rightarrow> [(''required'', required)] | None \<Rightarrow> [])\<rparr>"

definition systemField :: "string \<Rightarrow> string option" where
  "systemField systemPrompt = (if systemPrompt \<noteq> '''' then Some systemPrompt else None)"

text \<open>The loop over \<open>resp.Content\<close>: text is concatenated, tool-use blocks are collected.\<close>

fun collect :: "ContentBlock list \<Rightarrow> string \<times> ToolCall list \<Rightarrow> string \<times> ToolCall list" where
  "collect [] acc = acc"
| "collect (TextBlock t # bs) (textContent, pending) = collect bs (textContent @ t, pending)"
| "collect (ToolUseBlock i n inp # bs) (textContent, pending) =
     collect bs (textContent,
       pending @ [\<lparr>ID = i, Name = n, Input = (case inp of Some obj \<Rightarrow> obj | None \<Rightarrow> [])\<rparr>])"
| "collect (OtherBlock # bs) acc = collect bs acc"

text \<open>The text-only loop over the final response's blocks.\<close>

fun appendText :: "ContentBlock list \<Rightarrow> string \<Rightarrow> string" where
  "appendText [] textContent = textContent"
| "appendText (TextBlock t # bs) textContent = appendText bs (textContent @ t)"
| "appendText (b # bs) textContent = appendText bs textContent"

fun executeTool :: "ToolCall \<Rightarrow> Tool list \<Rightarrow> string + string" where
  "executeTool tc [] = Inl (''unknown tool: '' @ Name tc)"
| "executeTool tc (t # ts) = (if tName t = Name tc then tExecute t (Input tc) else executeTool tc ts)"

text \<open>The loop over the pending tool calls of one iteration.\<close>

fun runTools ::
  "Tool list \<Rightarrow> ToolCall list \<Rightarrow> string list \<times> string \<times> ParamBlock list \<Rightarrow>
     string list \<times> string \<times> ParamBlock list" where
  "runTools agentTools [] acc = acc"
| "runTools agentTools (tc # tcs) (used, lastSQL, toolResults) =
     (let used' = used @ [Name tc];
          lastSQL' =
            (if Name tc = ''execute_bigquery_sql'' then
               (case map_of (Input tc) ''sql'' of
                  Some (JString sql) \<Rightarrow> if sql \<noteq> '''' then sql else lastSQL
                | _ \<Rightarrow> lastSQL)
             else lastSQL);
          r = executeTool tc agentTools;
          result = (case r of Inl execErr \<Rightarrow> ''error: '' @ execErr | Inr res \<Rightarrow> res)
      in runTools agentTools tcs
           (used', lastSQL', toolResults @ [PToolResult (ID tc) result (isl r)]))"

definition isDone :: "Response \<Rightarrow> bool" where
  "isDone resp \<longleftrightarrow>
     StopReason resp = ''end_turn'' \<or> StopReason resp = ''stop'' \<or>
     StopReason resp = ''stop_sequence'' \<or> StopReason resp = ''max_tokens'' \<or>
     snd (collect (Content resp) ('''', [])) = []"

definition loopParams :: "CortexAgent \<Rightarrow> string \<Rightarrow> Tool list \<Rightarrow> MessageParam list \<Rightarrow> MessageNewParams" where
  "loopParams a systemPrompt agentTools msgs =
     \<lparr>Model = model a, MaxTokens = maxTokens a, Messages = msgs,
      Tools = Some (map toolParam agentTools), System = systemField systemPrompt\<rparr>"

definition finalParams :: "CortexAgent \<Rightarrow> string \<Rightarrow> MessageParam list \<Rightarrow> MessageNewParams" where
  "finalParams a systemPrompt msgs =
     \<lparr>Model = model a, MaxTokens = maxTokens a, Messages = msgs,
      Tools = None, System = systemField systemPrompt\<rparr>"

function agentLoop ::
  "LLM \<Rightarrow> CortexAgent \<Rightarrow> string \<Rightarrow> Tool list \<Rightarrow> nat \<Rightarrow> LoopState \<Rightarrow> RunResult" where
  "agentLoop llm a systemPrompt agentTools iter st =
     (if iter < maxIter then
        (let params = loopParams a systemPrompt agentTools (messages st);
             cs = calls st @ [params]
         in case llm (length (calls st)) params of
              Inl e \<Rightarrow>
                \<lparr>finalText = '''', rToolsUsed = toolsUsed st,
                 rLastExecutedSQL = lastExecutedSQL st, rError = Some (LLMCallFailed e),
                 rCalls = cs, rExecuted = executed st\<rparr>
            | Inr resp \<Rightarrow>
                (let (textContent, pendingToolCalls) = collect (Content resp) ('''', [])
                 in if isDone resp then
                      \<lparr>finalText = textContent, rToolsUsed = toolsUsed st,
                       rLastExecutedSQL = lastExecutedSQL st, rError = None,
                       rCalls = cs, rExecuted = executed st\<rparr>
                    else if iter \<ge> 7 then
                      (let msgs = messages st @ [AssistantMessage (Content resp),
                                                  UserMessage [PText forcingText]];
                           fparams = finalParams a systemPrompt msgs
                       in case llm (length cs) fparams of
                            Inl e \<Rightarrow>
                              \<lparr>finalText = textContent, rToolsUsed = toolsUsed st,
                               rLastExecutedSQL = lastExecutedSQL st,
                               rError = Some (FinalAnswerCallFailed e),
                               rCalls = cs @ [fparams], rExecuted = executed st\<rparr>
                          | Inr finalResp \<Rightarrow>
                              \<lparr>finalText = appendText (Content finalResp) textContent,
                               rToolsUsed = toolsUsed st,
                               rLastExecutedSQL = lastExecutedSQL st, rError = None,
                               rCalls = cs @ [fparams], rExecuted = executed st\<rparr>)
                    else
                      (let (used, lastSQL, toolResults) =
                             runTools agentTools pendingToolCalls
                               (toolsUsed st, lastExecutedSQL st, [])
                       in agentLoop llm a systemPrompt agentTools (iter + 1)
                            \<lparr>messages = messages st @ [AssistantMessage (Content resp),
                                                        UserMessage toolResults],
                             toolsUsed = used, lastExecutedSQL = lastSQL,
                             calls = cs, executed = executed st @ pendingToolCalls\<rparr>)))
      else
        \<lparr>finalText = '''', rToolsUsed = toolsUsed st,
         rLastExecutedSQL = lastExecutedSQL st,
         rError = Some (ExceededMaxIterations maxIter),
         rCalls = calls st, rExecuted = executed st\<rparr>)"
  by pat_completeness auto
termination
  by (relation "measure (\<lambda>(llm, a, systemPrompt, agentTools, iter, st). maxIter - iter)") auto

definition Run :: "LLM \<Rightarrow> CortexAgent \<Rightarrow> string \<Rightarrow> string \<Rightarrow> Tool list \<Rightarrow> RunResult" where
  "Run llm a systemPrompt userPrompt agentTools =
     agentLoop llm a systemPrompt agentTools 0
       \<lparr>messages = [UserMessage [PText userPrompt]], toolsUsed = [],
        lastExecutedSQL = '''', calls = [], executed = []\<rparr>"

text \<open>An LLM that asks for a tool as long as it is offered tools, and answers once it is
  offered none.\<close>

definition toolLoopLLM :: LLM where
  "toolLoopLLM n params =
     (case Tools params of
        None \<Rightarrow> Inr \<lparr>Content = [TextBlock ''Done.''], StopReason = ''end_turn''\<rparr>
      | Some ts \<Rightarrow>
          Inr \<lparr>Content = [TextBlock ''Checking.'', ToolUseBlock ''t1'' ''list_tables'' (Some [])],
               StopReason = ''tool_use''\<rparr>)"

section \<open>Schema-prompt cache (internal/agent/bigquery\_handler.go)\<close>

text \<open>
  Instants and durations are integers (nanoseconds). Every reading of \<open>time.Now()\<close>
  is an input of the model.
\<close>

type_synonym time = int

definition schemaCacheTTL :: int where
  "schemaCacheTTL = 5 * 60 * 1000000000"

record schemaCacheEntry =
  prompt :: string
  expiresAt :: time

type_synonym schemaStore = "string \<rightharpoonup> schemaCacheEntry"

definition newSchemaCache :: schemaStore where
  "newSchemaCache = Map.empty"

text \<open>\<open>schemaCache.get\<close>, with \<open>now\<close> the reading of the clock inside it.\<close>

definition cache_get :: "schemaStore \<Rightarrow> time \<Rightarrow> string \<Rightarrow> string \<times> bool" where
  "cache_get store now datasetID =
     (case store datasetID of
        None \<Rightarrow> ('''', False)
      | Some e \<Rightarrow> if now > expiresAt e then ('''', False) else (prompt e, True))"

definition cache_set :: "schemaStore \<Rightarrow> time \<Rightarrow> string \<Rightarrow> string \<Rightarrow> schemaStore" where
  "cache_set store now datasetID p =
     store(datasetID \<mapsto> \<lparr>prompt = p, expiresAt = now + schemaCacheTTL\<rparr>)"

definition cache_invalidate :: "schemaStore \<Rightarrow> string \<Rightarrow> schemaStore" where
  "cache_invalidate store datasetID = store(datasetID := None)"

definition baseSystemPrompt :: string where
  "baseSystemPrompt =
     ''You are CortexAI, an expert data analyst with deep knowledge of BigQuery SQL.\<newline>\<newline>Your task is to help users query their BigQuery data using natural language.\<newline>\<newline>RULES:\<newline>1. Generate only SELECT queries - never INSERT, UPDATE, DELETE, DROP, or DDL\<newline>2. Always add LIMIT clause (max 1000 rows) unless user specifies otherwise\<newline>3. Use fully qualified table names: `dataset.table`\<newline>4. ALWAYS wrap your final SQL in a code block exactly like this:\<newline>```sql\<newline>SELECT ...\<newline>```\<newline>5. Execute the SQL exactly once after writing it\<newline>6. Explain results in plain language\<newline>7. For JOIN queries: use get_bigquery_sample_data to verify join key values match before executing''"

text \<open>
  The warehouse adapter is outside the program. \<open>ListTables\<close> gives the ids of the
  tables of a dataset, \<open>GetTableSchema\<close> the fields of a table and its row count;
  \<open>Inl\<close> is a failed call.
\<close>

record FieldSchema =
  fName :: string
  fType :: string

record BigQueryService =
  ListTables :: "string \<Rightarrow> string + string list"
  GetTableSchema :: "string \<Rightarrow> string \<Rightarrow> string + (FieldSchema list \<times> nat)"

fun SchemaToString :: "FieldSchema list \<Rightarrow> string" where
  "SchemaToString [] = ''''"
| "SchemaToString (f # fs) = (''  '' @ fName f @ '' '' @ fType f @ ''\<newline>'') @ SchemaToString fs"

text \<open>The loop over the listed tables; a table whose schema cannot be read is skipped.\<close>

fun renderTables :: "BigQueryService \<Rightarrow> string \<Rightarrow> string list \<Rightarrow> string \<Rightarrow> string" where
  "renderTables bq datasetID [] sb = sb"
| "renderTables bq datasetID (tbl # tbls) sb =
     (case GetTableSchema bq datasetID tbl of
        Inl err \<Rightarrow> renderTables bq datasetID tbls sb
      | Inr (schema, numRows) \<Rightarrow>
          renderTables bq datasetID tbls
            (sb @ (''### '' @ datasetID @ ''.'' @ tbl @ '' ('' @ dec_nat numRows @ '' rows)\<newline>'')
                @ SchemaToString schema @ ''\<newline>''))"

definition skipDiscoveryHint :: string where
  "skipDiscoveryHint =
     ''\<newline>Since schemas are already provided above, you can skip list_tables and get_bigquery_schema tool calls. Go directly to get_bigquery_sample_data for JOIN queries, then write and execute the SQL.''"

text \<open>
  What a call leaves behind: the prompt it returns, the cache, and the datasets whose
  tables it asked the backend to list, in order.
\<close>

record BuildResult =
  bPrompt :: string
  bStore :: schemaStore
  bListed :: "string list"

text \<open>
  The work unit handed to \<open>singleflight.Do\<close>: \<open>tInner\<close> is the clock reading of the
  double-check, \<open>tSet\<close> the one of \<open>set\<close>.
\<close>

definition fetchPrompt :: "BigQueryService \<Rightarrow> schemaStore \<Rightarrow> time \<Rightarrow> time \<Rightarrow> string \<Rightarrow> BuildResult" where
  "fetchPrompt bq store tInner tSet datasetID =
     (case cache_get store tInner datasetID of
        (p, True) \<Rightarrow> \<lparr>bPrompt = p, bStore = store, bListed = []\<rparr>
      | (p, False) \<Rightarrow>
          (case ListTables bq datasetID of
             Inl err \<Rightarrow> \<lparr>bPrompt = baseSystemPrompt, bStore = store, bListed = [datasetID]\<rparr>
           | Inr tables \<Rightarrow>
               (let sb = baseSystemPrompt
                      @ (''\<newline>\<newline>## Available Dataset: '' @ datasetID @ ''\<newline>'')
                      @ ''The following tables and schemas are already available to you:\<newline>\<newline>'';
                    sb' = renderTables bq datasetID tables sb;
                    p' = sb' @ skipDiscoveryHint
                in \<lparr>bPrompt = p', bStore = cache_set store tSet datasetID p',
                    bListed = [datasetID]\<rparr>)))"

text \<open>
  \<open>buildSystemPrompt\<close> as one caller runs it from start to end (no other caller in
  between, so \<open>singleflight.Do\<close> runs the work unit at once). The handler's fields that
  matter are the adapter \<open>bq\<close> (\<open>None\<close> is \<open>nil\<close>) and the cache; \<open>tOuter\<close> is the clock
  reading of the first lookup.
\<close>

definition buildSystemPrompt ::
  "BigQueryService option \<Rightarrow> schemaStore \<Rightarrow> time \<Rightarrow> time \<Rightarrow> time \<Rightarrow> string \<Rightarrow> BuildResult" where
  "buildSystemPrompt bq store tOuter tInner tSet datasetID =
     (case bq of
        None \<Rightarrow> \<lparr>bPrompt = baseSystemPrompt, bStore = store, bListed = []\<rparr>
      | Some svc \<Rightarrow>
          if datasetID = '''' then \<lparr>bPrompt = baseSystemPrompt, bStore = store, bListed = []\<rparr>
          else
            (case cache_get store tOuter datasetID of
               (p, True) \<Rightarrow> \<lparr>bPrompt = p, bStore = store, bListed = []\<rparr>
             | (p, False) \<Rightarrow> fetchPrompt svc store tInner tSet datasetID))"

text \<open>A backend whose listing always fails, and one with a single table.\<close>

definition failingService :: BigQueryService where
  "failingService =
     \<lparr>ListTables = (\<lambda>d. Inl ''list tables: backend unavailable''),
      GetTableSchema = (\<lambda>d t. Inl ''unavailable'')\<rparr>"

definition ordersService :: BigQueryService where
  "ordersService =
     \<lparr>ListTables = (\<lambda>d. Inr [''orders'']),
      GetTableSchema = (\<lambda>d t. Inr ([\<lparr>fName = ''id'', fType = ''INTEGER''\<rparr>], 42))\<rparr>"

text \<open>A cache whose only entry has expired.\<close>

definition staleStore :: schemaStore where
  "staleStore = newSchemaCache(''ds'' \<mapsto> \<lparr>prompt = ''old prompt'', expiresAt = 100\<rparr>)"

section \<open>Regular expressions (package regexp, as far as the program uses it)\<close>

text \<open>
  The program's patterns are sequences of single characters, character classes, repeated
  character classes, the assertions \<open>\b\<close>, \<open>$\<close> and \<open>\z\<close>, and alternations of such
  sequences. All their classes are defined on ASCII, so matching on bytes agrees with
  matching on runes.
\<close>

datatype cls =
    CAny              \<comment> \<open>\<open>.\<close> under flag \<open>s\<close>\<close>
  | CDot              \<comment> \<open>\<open>.\<close> without flag \<open>s\<close>: any character but newline\<close>
  | CSpace            \<comment> \<open>\<open>\s\<close>\<close>
  | CNotSpace         \<comment> \<open>\<open>\S\<close>\<close>
  | CWord             \<comment> \<open>\<open>\w\<close>\<close>
  | CDigit            \<comment> \<open>\<open>\d\<close>\<close>
  | CChar char        \<comment> \<open>a literal character\<close>
  | CCi char          \<comment> \<open>a literal character under flag \<open>i\<close>\<close>

definition is_re_space :: "char \<Rightarrow> bool" where
  "is_re_space c \<longleftrightarrow> c \<in> set [CHR 0x09, CHR 0x0A, CHR 0x0C, CHR 0x0D, CHR 0x20]"

definition is_digit :: "char \<Rightarrow> bool" where
  "is_digit c \<longleftrightarrow> c \<in> set ''0123456789''"

definition is_word_char :: "char \<Rightarrow> bool" where
  "is_word_char c \<longleftrightarrow> c \<in> set (upper_letters @ lower_letters @ ''0123456789_'')"

fun cls_ok :: "cls \<Rightarrow> char \<Rightarrow> bool" where
  "cls_ok CAny x = True"
| "cls_ok CDot x = (x \<noteq> CHR 0x0A)"
| "cls_ok CSpace x = is_re_space x"
| "cls_ok CNotSpace x = (\<not> is_re_space x)"
| "cls_ok CWord x = is_word_char x"
| "cls_ok CDigit x = is_digit x"
| "cls_ok (CChar c) x = (x = c)"
| "cls_ok (CCi c) x = (to_lower_char x = to_lower_char c)"

datatype atom =
    ACls cls                  \<comment> \<open>one character of the class\<close>
  | AStar cls                 \<comment> \<open>\<open>c*\<close>, greedy\<close>
  | AStarLazy cls             \<comment> \<open>\<open>c*?\<close>\<close>
  | AOpt cls                  \<comment> \<open>\<open>c?\<close>\<close>
  | AWordB                    \<comment> \<open>\<open>\b\<close>\<close>
  | AEnd                      \<comment> \<open>\<open>$\<close> without flag \<open>m\<close>, and \<open>\z\<close>\<close>
  | AAlt "atom list list"     \<comment> \<open>alternatives, in order of preference\<close>

text \<open>
  A position in the text is the character before it (none at the start) and the rest of
  the text. \<open>\b\<close> holds where exactly one of the two neighbours is a word character.
\<close>

type_synonym pos = "char option \<times> string"

definition word_before :: "char option \<Rightarrow> bool" where
  "word_before p = (case p of None \<Rightarrow> False | Some c \<Rightarrow> is_word_char c)"

definition word_after :: "string \<Rightarrow> bool" where
  "word_after s = (case s of [] \<Rightarrow> False | c # cs \<Rightarrow> is_word_char c)"

text \<open>The ways to repeat a class from a position, longest first and shortest first.\<close>

fun star_greedy :: "cls \<Rightarrow> char option \<Rightarrow> string \<Rightarrow> pos list" where
  "star_greedy c p [] = [(p, [])]"
| "star_greedy c p (x # xs) =
     (if cls_ok c x then star_greedy c (Some x) xs @ [(p, x # xs)] else [(p, x # xs)])"

fun star_lazy :: "cls \<Rightarrow> char option \<Rightarrow> string \<Rightarrow> pos list" where
  "star_lazy c p [] = [(p, [])]"
| "star_lazy c p (x # xs) =
     (if cls_ok c x then (p, x # xs) # star_lazy c (Some x) xs else [(p, x # xs)])"

text \<open>
  A backtracking matcher as a list of successes: \<open>match_seq as p s\<close> lists the positions
  at which a match of the sequence \<open>as\<close> that starts at \<open>(p, s)\<close> can end, in the order
  in which a backtracking search finds them. The first one is the match that
  leftmost-first matching reports.
\<close>

fun match_atom :: "atom \<Rightarrow> char option \<Rightarrow> string \<Rightarrow> pos list"
  and match_seq :: "atom list \<Rightarrow> char option \<Rightarrow> string \<Rightarrow> pos list"
  and match_alts :: "atom list list \<Rightarrow> char option \<Rightarrow> string \<Rightarrow> pos list" where
  "match_atom (ACls c) p s =
     (case s of [] \<Rightarrow> [] | x # xs \<Rightarrow> if cls_ok c x then [(Some x, xs)] else [])"
| "match_atom (AStar c) p s = star_greedy c p s"
| "match_atom (AStarLazy c) p s = star_lazy c p s"
| "match_atom (AOpt c) p s =
     (case s of [] \<Rightarrow> [(p, [])]
      | x # xs \<Rightarrow> if cls_ok c x then [(Some x, xs), (p, s)] else [(p, s)])"
| "match_atom AWordB p s = (if word_before p \<noteq> word_after s then [(p, s)] else [])"
| "match_atom AEnd p s = (if s = [] then [(p, s)] else [])"
| "match_atom (AAlt alts) p s = match_alts alts p s"
| "match_seq [] p s = [(p, s)]"
| "match_seq (a # as) p s =
     concat (map (\<lambda>(p', s'). match_seq as p' s') (match_atom a p s))"
| "match_alts [] p s = []"
| "match_alts (alt # alts) p s = match_seq alt p s @ match_alts alts p s"

text \<open>
  \<open>search\<close> finds the leftmost position from which the pattern matches and gives the
  matched text; \<open>MatchString\<close> and \<open>FindString\<close> are the two ways the program asks.
  \<open>FindString\<close> returns the empty string when there is no match.
\<close>

fun search :: "atom list \<Rightarrow> char option \<Rightarrow> string \<Rightarrow> string option" where
  "search re p [] =
     (case match_seq re p [] of [] \<Rightarrow> None | (p', r) # ms \<Rightarrow> Some [])"
| "search re p (x # xs) =
     (case match_seq re p (x # xs) of
        [] \<Rightarrow> search re (Some x) xs
      | (p', r) # ms \<Rightarrow> Some (take (length (x # xs) - length r) (x # xs)))"


definition FindString :: "atom list \<Rightarrow> string \<Rightarrow> string" where
  "FindString re s = (case search re None s of None \<Rightarrow> '''' | Some m \<Rightarrow> m)"




definition rep1 :: "cls \<Rightarrow> atom list" where
  "rep1 c = [ACls c, AStar c]"

definition rep1_lazy :: "cls \<Rightarrow> atom list" where
  "rep1_lazy c = [ACls c, AStarLazy c]"

section \<open>More of package strings\<close>



section \<open>Data masker (internal/security/data\_masker.go)\<close>

























section \<open>Properties of the cost tracker\<close>



section \<open>Properties of the intent router\<close>







section \<open>Properties of the agent loop\<close>

lemma agentLoop_never_exceeds:
  "iter \<le> 7 \<Longrightarrow> rError (agentLoop llm a sp tools iter st) \<noteq> Some (ExceededMaxIterations n)"
proof (induction llm a sp tools iter st rule: agentLoop.induct)
  case (1 llm a sp tools iter st)
  show ?case
  proof (cases "llm (length (calls st)) (loopParams a sp tools (messages st))")
    case (Inl e)
    then show ?thesis using "1.prems"
      by (subst agentLoop.simps) (simp add: maxIter_def Let_def)
  next
    case (Inr resp)
    obtain tc pend where c: "collect (Content resp) ('''', []) = (tc, pend)"
      by (cases "collect (Content resp) ('''', [])")
    obtain u l r where rt: "runTools tools pend (toolsUsed st, lastExecutedSQL st, []) = (u, l, r)"
      by (cases "runTools tools pend (toolsUsed st, lastExecutedSQL st, [])")
    show ?thesis
    proof (cases "isDone resp")
      case True
      then show ?thesis using "1.prems" Inr c
        by (subst agentLoop.simps) (simp add: maxIter_def Let_def)
    next
      case nd: False
      show ?thesis
      proof (cases "7 \<le> iter")
        case True
        then show ?thesis using "1.prems" Inr c nd
          by (subst agentLoop.simps) (simp add: maxIter_def Let_def split: sum.splits)
      next
        case False
        have lt: "iter < maxIter" using "1.prems" by (simp add: maxIter_def)
        have "rError (agentLoop llm a sp tools (iter + 1)
                \<lparr>messages = messages st @ [AssistantMessage (Content resp), UserMessage r],
                 toolsUsed = u, lastExecutedSQL = l,
                 calls = calls st @ [loopParams a sp tools (messages st)],
                 executed = executed st @ pend\<rparr>) \<noteq> Some (ExceededMaxIterations n)"
          using "1.IH"[OF lt refl refl Inr c[symmetric] refl nd False rt[symmetric] refl] False
          by simp
        then show ?thesis using Inr c nd False rt lt
          by (subst agentLoop.simps) (simp add: Let_def)
      qed
    qed
  qed
qed

text \<open>
  Claim C10. The "agent loop exceeded max iterations" return is unreachable: whatever the
  LLM answers and whatever the tools do, \<open>Run\<close> returns from inside the loop body (a
  terminal response, a failed LLM call, or the forced final answer at iteration index 7),
  so its error is never the exceeded-iterations error.
\<close>

theorem Run_never_exceeds_max_iterations:
  "rError (Run llm a systemPrompt userPrompt agentTools) \<noteq> Some (ExceededMaxIterations n)"
  unfolding Run_def by (rule agentLoop_never_exceeds) simp

lemma appendText_collect:
  "appendText bs t = fst (collect bs (t, p))"
  by (induction bs t arbitrary: p rule: appendText.induct) auto

lemma appendText_append:
  "appendText bs t = t @ appendText bs ''''"
proof (induction bs arbitrary: t)
  case Nil
  then show ?case by simp
next
  case (Cons b bs)
  show ?case
  proof (cases b)
    case (TextBlock x)
    then show ?thesis using Cons[of "t @ x"] Cons[of x] by simp
  next
    case (ToolUseBlock x y z)
    then show ?thesis using Cons[of t] by simp
  next
    case OtherBlock
    then show ?thesis using Cons[of t] by simp
  qed
qed

text \<open>
  Claim C1 (as amended). In every loop state, when the response at an iteration index of at
  least 7 still carries pending tool calls and the terminal condition did not fire, the
  loop appends the assistant message and a user turn with the fixed forcing text, issues
  exactly one more LLM call, which carries no tool definitions, executes none of the
  pending tool calls, and returns the text of the pending response followed by the
  concatenated text of that last call (when that call fails: the pending response's text
  with the final-answer error).
\<close>

theorem forced_termination:
  assumes "7 \<le> iter" and "iter < maxIter"
    and "llm (length (calls st)) (loopParams a sp tools (messages st)) = Inr resp"
    and "\<not> isDone resp"
  shows "agentLoop llm a sp tools iter st =
     \<lparr>finalText =
        (case llm (length (calls st) + 1)
                (finalParams a sp (messages st @ [AssistantMessage (Content resp),
                                                   UserMessage [PText forcingText]])) of
           Inl e \<Rightarrow> appendText (Content resp) ''''
         | Inr finalResp \<Rightarrow> appendText (Content resp) '''' @ appendText (Content finalResp) ''''),
      rToolsUsed = toolsUsed st,
      rLastExecutedSQL = lastExecutedSQL st,
      rError =
        (case llm (length (calls st) + 1)
                (finalParams a sp (messages st @ [AssistantMessage (Content resp),
                                                   UserMessage [PText forcingText]])) of
           Inl e \<Rightarrow> Some (FinalAnswerCallFailed e)
         | Inr finalResp \<Rightarrow> None),
      rCalls = calls st @
        [loopParams a sp tools (messages st),
         finalParams a sp (messages st @ [AssistantMessage (Content resp),
                                          UserMessage [PText forcingText]])],
      rExecuted = executed st\<rparr>
   \<and> Tools (finalParams a sp (messages st @ [AssistantMessage (Content resp),
                                              UserMessage [PText forcingText]])) = None"
proof -
  obtain tc pend where c: "collect (Content resp) ('''', []) = (tc, pend)"
    by (cases "collect (Content resp) ('''', [])")
  have tc: "tc = appendText (Content resp) ''''"
    using appendText_collect[of "Content resp" "''''" "[]"] c by simp
  have ap: "\<And>bs. appendText bs tc = tc @ appendText bs ''''"
    by (rule appendText_append)
  show ?thesis
    using assms c
    by (subst agentLoop.simps) (simp add: Let_def tc[symmetric] ap finalParams_def split: sum.splits)
qed

theorem forced_termination_witness:
  "agentLoop toolLoopLLM (NewCortexAgent '''') '''' [] 7
     \<lparr>messages = [UserMessage [PText ''q'']], toolsUsed = [], lastExecutedSQL = '''',
      calls = [], executed = []\<rparr> =
   \<lparr>finalText = ''Checking.Done.'', rToolsUsed = [], rLastExecutedSQL = '''', rError = None,
    rCalls =
      [\<lparr>Model = ''claude-sonnet-4-6'', MaxTokens = 4096,
        Messages = [UserMessage [PText ''q'']], Tools = Some [], System = None\<rparr>,
       \<lparr>Model = ''claude-sonnet-4-6'', MaxTokens = 4096,
        Messages =
          [UserMessage [PText ''q''],
           AssistantMessage
             [TextBlock ''Checking.'', ToolUseBlock ''t1'' ''list_tables'' (Some [])],
           UserMessage [PText forcingText]],
        Tools = None, System = None\<rparr>],
    rExecuted = []\<rparr>"
proof -
  have h1: "(7::nat) \<le> 7" by simp
  have h2: "7 < maxIter" by (simp add: maxIter_def)
  have h3: "toolLoopLLM
      (length (calls \<lparr>messages = [UserMessage [PText ''q'']], toolsUsed = [],
                      lastExecutedSQL = '''', calls = [], executed = []\<rparr>))
      (loopParams (NewCortexAgent '''') '''' []
         (messages \<lparr>messages = [UserMessage [PText ''q'']], toolsUsed = [],
                    lastExecutedSQL = '''', calls = [], executed = []\<rparr>)) =
      Inr \<lparr>Content = [TextBlock ''Checking.'', ToolUseBlock ''t1'' ''list_tables'' (Some [])],
           StopReason = ''tool_use''\<rparr>"
    by (simp add: toolLoopLLM_def loopParams_def)
  have h4: "\<not> isDone \<lparr>Content = [TextBlock ''Checking.'', ToolUseBlock ''t1'' ''list_tables'' (Some [])],
           StopReason = ''tool_use''\<rparr>"
    by (simp add: isDone_def)
  show ?thesis
    using forced_termination[where iter = 7 and llm = toolLoopLLM
        and a = "NewCortexAgent ''''" and sp = "''''" and tools = "[]"
        and st = "\<lparr>messages = [UserMessage [PText ''q'']], toolsUsed = [],
                    lastExecutedSQL = '''', calls = [], executed = []\<rparr>"
        and resp = "\<lparr>Content = [TextBlock ''Checking.'',
                      ToolUseBlock ''t1'' ''list_tables'' (Some [])],
                    StopReason = ''tool_use''\<rparr>", OF h1 h2 h3 h4]
    by (simp add: toolLoopLLM_def finalParams_def loopParams_def NewCortexAgent_def systemField_def)
qed

text \<open>
  The claim as first stated says that the forced branch returns the last call's text alone.
  With an LLM that says \<open>Checking.\<close> next to each tool request and \<open>Done.\<close> once
  it is offered no tools, \<open>Run\<close> returns \<open>Checking.Done.\<close>: the text of the pending
  response is kept in front.
\<close>

theorem forced_text_counterexample:
  "finalText (Run toolLoopLLM (NewCortexAgent '''') '''' ''q'' []) = ''Checking.Done.'' \<and>
   toolLoopLLM 8 (last (rCalls (Run toolLoopLLM (NewCortexAgent '''') '''' ''q'' []))) =
     Inr \<lparr>Content = [TextBlock ''Done.''], StopReason = ''end_turn''\<rparr> \<and>
   appendText [TextBlock ''Done.''] '''' = ''Done.''"
  by (simp add: Run_def agentLoop.simps toolLoopLLM_def NewCortexAgent_def loopParams_def
      finalParams_def isDone_def maxIter_def Let_def systemField_def)

section \<open>Properties of the schema-prompt cache\<close>

lemma cache_get_hit:
  "snd (cache_get store now d) \<Longrightarrow>
     \<exists>e. store d = Some e \<and> now \<le> expiresAt e \<and> cache_get store now d = (prompt e, True)"
  by (auto simp: cache_get_def split: option.splits if_splits)

lemma cache_get_expired:
  "store d = Some e \<Longrightarrow> expiresAt e < now \<Longrightarrow> cache_get store now d = ('''', False)"
  by (simp add: cache_get_def)

lemma cache_get_miss_later:
  "\<not> snd (cache_get store t d) \<Longrightarrow> t \<le> t' \<Longrightarrow> cache_get store t' d = ('''', False)"
  by (auto simp: cache_get_def split: option.splits if_splits)

lemma buildSystemPrompt_listing_fails:
  assumes "d \<noteq> ''''" and "ListTables svc d = Inl err"
    and "cache_get store tOuter d = ('''', False)" and "cache_get store tInner d = ('''', False)"
  shows "buildSystemPrompt (Some svc) store tOuter tInner tSet d =
           \<lparr>bPrompt = baseSystemPrompt, bStore = store, bListed = [d]\<rparr>"
  using assms by (simp add: buildSystemPrompt_def fetchPrompt_def)

text \<open>
  Claim C9. When the table listing fails inside the fetch, \<open>buildSystemPrompt\<close> returns
  the base prompt and leaves the cache as it was, so a later call for the same dataset
  asks the backend for the listing again. A lookup that hits returns an entry that has not
  expired; an expired entry gives the same answer as an absent one.
\<close>

theorem listing_failure_is_not_cached:
  assumes "d \<noteq> ''''" and "ListTables svc d = Inl err"
    and "\<not> snd (cache_get store tOuter d)"
    and "tOuter \<le> tInner" and "tInner \<le> tOuter2" and "tOuter2 \<le> tInner2"
  shows "buildSystemPrompt (Some svc) store tOuter tInner tSet d =
           \<lparr>bPrompt = baseSystemPrompt, bStore = store, bListed = [d]\<rparr>
       \<and> bListed (buildSystemPrompt (Some svc)
                     (bStore (buildSystemPrompt (Some svc) store tOuter tInner tSet d))
                     tOuter2 tInner2 tSet2 d) = [d]
       \<and> (\<forall>now k. snd (cache_get store now k) \<longrightarrow>
             (\<exists>e. store k = Some e \<and> now \<le> expiresAt e \<and>
                  cache_get store now k = (prompt e, True)))
       \<and> (\<forall>now k e. store k = Some e \<and> expiresAt e < now \<longrightarrow>
             cache_get store now k = cache_get (store(k := None)) now k)"
proof -
  have m1: "cache_get store tOuter d = ('''', False)"
    using assms(3) cache_get_miss_later[of store tOuter d tOuter] by simp
  have m2: "cache_get store tInner d = ('''', False)"
    using assms(3,4) by (rule cache_get_miss_later)
  have m3: "cache_get store tOuter2 d = ('''', False)"
    using assms(3,4,5) cache_get_miss_later[of store tOuter d tOuter2] by simp
  have m4: "cache_get store tInner2 d = ('''', False)"
    using assms(3,4,5,6) cache_get_miss_later[of store tOuter d tInner2] by simp
  have first: "buildSystemPrompt (Some svc) store tOuter tInner tSet d =
           \<lparr>bPrompt = baseSystemPrompt, bStore = store, bListed = [d]\<rparr>"
    using assms(1,2) m1 m2 by (rule buildSystemPrompt_listing_fails)
  have second: "buildSystemPrompt (Some svc) store tOuter2 tInner2 tSet2 d =
           \<lparr>bPrompt = baseSystemPrompt, bStore = store, bListed = [d]\<rparr>"
    using assms(1,2) m3 m4 by (rule buildSystemPrompt_listing_fails)
  have hit: "\<forall>now k. snd (cache_get store now k) \<longrightarrow>
             (\<exists>e. store k = Some e \<and> now \<le> expiresAt e \<and>
                  cache_get store now k = (prompt e, True))"
    using cache_get_hit by blast
  have expired: "\<forall>now k e. store k = Some e \<and> expiresAt e < now \<longrightarrow>
             cache_get store now k = cache_get (store(k := None)) now k"
    by (simp add: cache_get_def)
  show ?thesis
    using first second hit expired by simp
qed

theorem listing_failure_is_not_cached_witness:
  "buildSystemPrompt (Some failingService) staleStore 200 201 202 ''ds'' =
     \<lparr>bPrompt = baseSystemPrompt, bStore = staleStore, bListed = [''ds'']\<rparr>
   \<and> bListed (buildSystemPrompt (Some failingService)
        (bStore (buildSystemPrompt (Some failingService) staleStore 200 201 202 ''ds''))
        300 301 302 ''ds'') = [''ds'']
   \<and> cache_get staleStore 200 ''ds'' = cache_get (staleStore(''ds'' := None)) 200 ''ds''
   \<and> cache_get staleStore 100 ''ds'' = (''old prompt'', True)"
proof -
  have h1: "''ds'' \<noteq> ''''" by simp
  have h2: "ListTables failingService ''ds'' = Inl ''list tables: backend unavailable''"
    by (simp add: failingService_def)
  have h3: "\<not> snd (cache_get staleStore 200 ''ds'')"
    by (simp add: cache_get_def staleStore_def)
  have h4: "(200::int) \<le> 201" and h5: "(201::int) \<le> 300" and h6: "(300::int) \<le> 301"
    by simp_all
  have e: "staleStore ''ds'' = Some \<lparr>prompt = ''old prompt'', expiresAt = 100\<rparr>"
    by (simp add: staleStore_def)
  have s: "snd (cache_get staleStore 100 ''ds'')"
    by (simp add: cache_get_def staleStore_def)
  note t = listing_failure_is_not_cached[OF h1 h2 h3 h4 h5 h6, of 202 302]
  from t e have x: "cache_get staleStore 200 ''ds'' = cache_get (staleStore(''ds'' := None)) 200 ''ds''"
    by simp
  from t s e have y: "cache_get staleStore 100 ''ds'' = (''old prompt'', True)"
    by fastforce
  from t x y show ?thesis by blast
qed

section \<open>Properties of Split\<close>










section \<open>Properties of the masks\<close>










section \<open>Properties of the data masker\<close>












end
